theory Spec2Isabelle
  imports Complex_Main
begin

section \<open>Data model of flippy.py\<close>

text \<open>
  Python numbers that may be floats (millimetres, frame rates, durations) are modelled as
  exact rationals: rounding error of IEEE doubles, infinities and NaN are outside the model.
  Python integers are \<open>int\<close>.
\<close>

record 'a Size =
  width :: 'a
  height :: 'a

definition to_tuple :: "'a Size \<Rightarrow> 'a \<times> 'a" where
  "to_tuple sz = (width sz, height sz)"

definition from_tuple :: "'a \<times> 'a \<Rightarrow> 'a Size" where
  "from_tuple sz = \<lparr>width = fst sz, height = snd sz\<rparr>"

record Point =
  pt_x :: rat
  pt_y :: rat

record Margin =
  top_mm :: rat
  right_mm :: rat
  bottom_mm :: rat
  left_mm :: rat

datatype error =
  KeyError | ZeroDivisionError | UnboundLocalError | TypeError | ValueError | OSError
  | FileNotFoundError

text \<open>\<open>int(x)\<close> on a float truncates toward zero.\<close>

definition py_int :: "rat \<Rightarrow> int" where
  "py_int q = (if 0 \<le> q then \<lfloor>q\<rfloor> else \<lceil>q\<rceil>)"

text \<open>\<open>'{}'.format(n)\<close> for an integer: its decimal digits, with a minus sign when negative.\<close>

definition digit_char :: "nat \<Rightarrow> char" where
  "digit_char d = ''0123456789'' ! d"

fun str_nat :: "nat \<Rightarrow> string" where
  "str_nat n = (if n < 10 then [digit_char n] else str_nat (n div 10) @ [digit_char (n mod 10)])"

declare str_nat.simps [simp del]

definition str_int :: "int \<Rightarrow> string" where
  "str_int k = (if k < 0 then CHR ''-'' # str_nat (nat (- k)) else str_nat (nat k))"

text \<open>\<open>str.lower()\<close>, on ASCII strings.\<close>

definition lower_char :: "char \<Rightarrow> char" where
  "lower_char c =
    (case map_of (zip ''ABCDEFGHIJKLMNOPQRSTUVWXYZ'' ''abcdefghijklmnopqrstuvwxyz'') c of
       Some d \<Rightarrow> d
     | None \<Rightarrow> c)"

definition lower :: "string \<Rightarrow> string" where
  "lower s = map lower_char s"

fun endswith :: "string \<Rightarrow> string \<Rightarrow> bool" where
  "endswith s suffix = (length suffix \<le> length s \<and> drop (length s - length suffix) s = suffix)"

subsection \<open>The paper catalog\<close>

definition paper_table :: "(string \<times> rat Size) list" where
  "paper_table =
    [(''a5'', \<lparr>width = 210, height = 148\<rparr>),
     (''a4'', \<lparr>width = 297, height = 210\<rparr>),
     (''a3'', \<lparr>width = 420, height = 297\<rparr>),
     (''letter'', \<lparr>width = 2794 / 10, height = 2159 / 10\<rparr>),
     (''legal'', \<lparr>width = 3556 / 10, height = 2159 / 10\<rparr>)]"

definition PAPER_SIZES :: "string \<rightharpoonup> rat Size" where
  "PAPER_SIZES = map_of paper_table"

definition PAPER_CHOICES :: "string list" where
  "PAPER_CHOICES = map fst paper_table"

subsection \<open>Parameters of \<open>process\<close>\<close>

record params =
  output_file_name :: "string option"
  dpi :: int
  offset :: rat
  fps :: rat
  height_mm :: rat
  margins :: Margin
  paper_format :: string

text \<open>The keyword defaults in the signature of \<open>process\<close>.\<close>

definition process_defaults :: params where
  "process_defaults =
    \<lparr>output_file_name = None, dpi = 150, offset = 0, fps = 10, height_mm = 50,
     margins = \<lparr>top_mm = 10, right_mm = 10, bottom_mm = 10, left_mm = 10\<rparr>,
     paper_format = ''a4''\<rparr>"

section \<open>The geometry of a run (lines 147 to 155 and 188 to 189 of \<open>process\<close>)\<close>

record layout =
  paper :: "rat Size"
  printable_area :: "rat Size"
  frame_mm :: "rat Size"
  total_mm :: "rat Size"
  frame :: "int Size"
  nx :: int
  ny :: int
  x0 :: rat
  y0 :: rat
  x1 :: rat
  y1 :: rat

text \<open>
  The local variables of \<open>process\<close> that are computed once before the frame loop
  (\<open>total\<close> is named \<open>total_mm\<close> here). Every raise of the source is a branch: the
  dictionary lookup raises \<open>KeyError\<close>, and each of the three float divisions raises
  \<open>ZeroDivisionError\<close> on a zero divisor.
\<close>

definition plan_layout :: "params \<Rightarrow> int Size \<Rightarrow> error + layout" where
  "plan_layout p clip_size =
    (case PAPER_SIZES (lower (paper_format p)) of
       None \<Rightarrow> Inl KeyError
     | Some pap \<Rightarrow>
        let m = margins p;
            pa = \<lparr>width = width pap - left_mm m - right_mm m,
                  height = height pap - top_mm m - bottom_mm m\<rparr>
        in if height clip_size = 0 then Inl ZeroDivisionError
        else
          let fmm = \<lparr>width = height_mm p / of_int (height clip_size) * of_int (width clip_size),
                     height = height_mm p\<rparr>;
              tot = \<lparr>width = offset p + width fmm, height = height fmm\<rparr>;
              fr = \<lparr>width = py_int (width fmm / (254 / 10) * of_int (dpi p)),
                    height = py_int (height fmm / (254 / 10) * of_int (dpi p))\<rparr>
          in if width tot = 0 then Inl ZeroDivisionError
          else if height tot = 0 then Inl ZeroDivisionError
          else
            let n_x = py_int (width pa / width tot);
                n_y = py_int (height pa / height tot)
            in Inr \<lparr>paper = pap, printable_area = pa, frame_mm = fmm, total_mm = tot,
                    frame = fr, nx = n_x, ny = n_y,
                    x0 = left_mm m, y0 = top_mm m,
                    x1 = left_mm m + of_int n_x * width tot,
                    y1 = top_mm m + of_int n_y * height tot\<rparr>)"

section \<open>The outside world\<close>

text \<open>
  Decoded images are opaque; the model keeps their pixel size only.
\<close>

datatype image = Image (im_size: "int \<times> int")

text \<open>
  What the frame iterator yields: the GIF image object itself (\<open>AnimatedGif.__getitem__\<close>
  returns \<open>self.im\<close>), or a pixel array from \<open>clip.iter_frames()\<close>.
\<close>

datatype frame_obj = GifImageFile "int \<times> int" | NdArray "int \<times> int"

record clip =
  clip_fps :: rat
  duration :: rat
  clip_size :: "int \<times> int"
  iter_frames :: "frame_obj list"

record gif_image =
  gif_size :: "int \<times> int"
  gif_n_frames :: nat

text \<open>
  Everything the run does to the outside is recorded in order. \<open>Raster ls\<close> is one call of
  the nested function \<open>draw_raster\<close> together with the \<open>pdf.line\<close> calls it made.
\<close>

datatype line = Line rat rat rat rat

datatype event =
    OpenSource string
  | Transcode rat
  | AddPage
  | Raster "line list"
  | Save string image
  | PdfImage string rat rat rat rat
  | RotateAt rat rat rat
  | Rotate rat
  | Text rat rat string
  | Output "string option"
  | Remove string

record world =
  files :: "string set"
  trace :: "event list"

definition emit :: "event list \<Rightarrow> world \<Rightarrow> world" where
  "emit es w = w\<lparr>trace := trace w @ es\<rparr>"

text \<open>
  The library calls whose outcome the program cannot decide are parameters of the model:
  opening a source, transcoding (\<open>write_videofile\<close> followed by reopening \<open>tmp.mp4\<close>; \<open>None\<close>
  when \<open>write_videofile\<close> raises), PIL's \<open>thumbnail\<close> (which returns the resampled image or
  raises, as it does for a box with a zero or a negative side), and whether \<open>im.save\<close> and
  \<open>pdf.output\<close> succeed. The other calls on the \<open>FPDF\<close> object build the document in memory
  and are modelled as always succeeding. A file that a failing call may leave half-written
  is not recorded, and neither is what the program prints.
\<close>

record env =
  image_open :: "string \<Rightarrow> gif_image option"
  video_open :: "string \<Rightarrow> clip option"
  transcode :: "clip \<Rightarrow> rat \<Rightarrow> clip option"
  thumbnail :: "int \<times> int \<Rightarrow> image \<Rightarrow> error + image"
  save_ok :: "string \<Rightarrow> bool"
  output_ok :: "string option \<Rightarrow> bool"

section \<open>\<open>FlipbookCreator\<close>\<close>

datatype source = Clip clip | Gif gif_image

text \<open>
  The attributes of a \<open>FlipbookCreator\<close>. The constructor sets either \<open>self.clip\<close> or
  \<open>self.frames\<close>, and both kinds of object are truthy, so the two constructors of
  \<open>source\<close> are the states \<open>process\<close> can find; its branch \<open>all_frames = []\<close> is not
  reachable from them.
\<close>

record creator =
  verbosity :: int
  input_file_name :: string
  src :: source
  self_fps :: rat
  frame_count :: int

definition FlipbookCreator_init ::
  "env \<Rightarrow> int option \<Rightarrow> string \<Rightarrow> world \<Rightarrow> (error \<times> world) + (creator \<times> world)" where
  "FlipbookCreator_init e verb name w =
    (let w1 = emit [OpenSource name] w in
     if endswith name ''.gif'' then
       (case image_open e name of
          None \<Rightarrow> Inl (OSError, w1)
        | Some g \<Rightarrow>
           (case verb of
              None \<Rightarrow> Inl (TypeError, w1)
            | Some v \<Rightarrow>
               Inr (\<lparr>verbosity = v, input_file_name = name, src = Gif g, self_fps = 0,
                      frame_count = int (gif_n_frames g)\<rparr>, w1)))
     else
       (case video_open e name of
          None \<Rightarrow> Inl (OSError, w1)
        | Some c \<Rightarrow>
           (case verb of
              None \<Rightarrow> Inl (TypeError, w1)
            | Some v \<Rightarrow>
               Inr (\<lparr>verbosity = v, input_file_name = name, src = Clip c, self_fps = clip_fps c,
                      frame_count = py_int (duration c * clip_fps c)\<rparr>, w1))))"

subsection \<open>Lines 134 to 145: transcoding and the size of the source\<close>

definition prepare ::
  "env \<Rightarrow> creator \<Rightarrow> params \<Rightarrow> world \<Rightarrow>
     (error \<times> world) + (creator \<times> int Size \<times> string list \<times> world)" where
  "prepare e self p w =
    (case src self of
       Clip c \<Rightarrow>
        if fps p \<noteq> clip_fps c then
          (case transcode e c (fps p) of
             None \<Rightarrow> Inl (OSError, w)
           | Some c' \<Rightarrow>
              Inr (self\<lparr>src := Clip c', self_fps := clip_fps c',
                         frame_count := py_int (duration c' * clip_fps c')\<rparr>,
                   from_tuple (clip_size c'), [''tmp.mp4''],
                   w\<lparr>files := insert ''tmp.mp4'' (files w),
                     trace := trace w @ [Transcode (fps p)]\<rparr>))
        else Inr (self, from_tuple (clip_size c), [], w)
     | Gif g \<Rightarrow> Inr (self, from_tuple (gif_size g), [], w))"

definition all_frames :: "creator \<Rightarrow> frame_obj list" where
  "all_frames self =
    (case src self of
       Clip c \<Rightarrow> iter_frames c
     | Gif g \<Rightarrow> replicate (gif_n_frames g) (GifImageFile (gif_size g)))"

subsection \<open>The nested function \<open>draw_raster\<close>\<close>

definition raster_lines :: "params \<Rightarrow> layout \<Rightarrow> line list" where
  "raster_lines p L =
    concat (map (\<lambda>ix.
        let xx = x0 L + of_int ix * width (total_mm L)
        in Line xx (y0 L) xx (y1 L) #
           (if offset p > 0 \<and> ix \<noteq> nx L
            then [Line (xx + offset p) (y0 L) (xx + offset p) (y1 L)] else []))
      [0..nx L])
    @ map (\<lambda>iy.
        let yy = y0 L + of_int iy * height (total_mm L)
        in Line (x0 L) yy (x1 L) yy)
      [0..ny L]"

definition draw_raster :: "params \<Rightarrow> layout \<Rightarrow> world \<Rightarrow> world" where
  "draw_raster p L w = emit [Raster (raster_lines p L)] w"

subsection \<open>The frame loop (lines 185 to 234)\<close>

record loop_state =
  st_i :: int
  st_page :: int
  st_tx :: int
  st_ty :: int
  st_x :: "rat option"
  st_y :: "rat option"
  st_tmp_files :: "string list"
  st_world :: world

text \<open>
  The loop variables \<open>i\<close>, \<open>page\<close>, \<open>tx\<close>, \<open>ty\<close>, the list \<open>tmp_files\<close>, and the
  coordinates \<open>x\<close> and \<open>y\<close>, which are assigned in the loop body only: \<open>None\<close> is the
  unbound variable.
\<close>

definition init_state :: "string list \<Rightarrow> world \<Rightarrow> loop_state" where
  "init_state tmps w =
    \<lparr>st_i = 0, st_page = 0, st_tx = - 1, st_ty = 0, st_x = None, st_y = None,
     st_tmp_files = tmps, st_world = w\<rparr>"

definition tmp_name :: "int \<Rightarrow> int \<Rightarrow> int \<Rightarrow> string" where
  "tmp_name pg t_x t_y =
    ''tmp-'' @ str_int pg @ ''-'' @ str_int t_x @ ''-'' @ str_int t_y @ ''.png''"

text \<open>
  Lines 204 to 210: the image that is saved for a frame. A GIF frame is composed onto the
  running canvas, which has the size of the GIF; a video frame is turned into an image and
  passed to \<open>thumbnail\<close>, which may raise.
\<close>

definition frame_image :: "env \<Rightarrow> layout \<Rightarrow> frame_obj \<Rightarrow> error + image" where
  "frame_image e L f =
    (case f of
       GifImageFile sz \<Rightarrow> Inr (Image sz)
     | NdArray sz \<Rightarrow> thumbnail e (to_tuple (frame L)) (Image sz))"

text \<open>Lines 224 to 233: the image and, with a positive offset, its rotated label.\<close>

definition place_events :: "params \<Rightarrow> layout \<Rightarrow> string \<Rightarrow> rat \<Rightarrow> rat \<Rightarrow> int \<Rightarrow> event list" where
  "place_events p L temp_file x y i =
    PdfImage temp_file (x + offset p) y (width (frame_mm L)) (height (frame_mm L)) #
    (let text = \<lparr>pt_x = x, pt_y = y + height (frame_mm L) - 2\<rparr>
     in if offset p > 0
        then [RotateAt 90 (pt_x text) (pt_y text),
              Text (pt_x text) (pt_y text + 5) (str_int i),
              Rotate 0]
        else [])"

definition frame_body ::
  "env \<Rightarrow> creator \<Rightarrow> params \<Rightarrow> layout \<Rightarrow> loop_state \<Rightarrow> frame_obj \<Rightarrow>
     (error \<times> world) + loop_state" where
  "frame_body e self p L st f =
    (if frame_count self = 0 then Inl (ZeroDivisionError, st_world st)
     else
       let tx1 = st_tx st + 1
       in case frame_image e L f of
            Inl err \<Rightarrow> Inl (err, st_world st)
          | Inr im \<Rightarrow>
             let wrap = (tx1 = nx L);
                 break = (wrap \<and> st_ty st + 1 = ny L);
                 tx2 = (if wrap then 0 else tx1);
                 ty2 = (if wrap then (if break then 0 else st_ty st + 1) else st_ty st);
                 page2 = (if break then st_page st + 1 else st_page st);
                 w1 = (if break then emit [AddPage] (draw_raster p L (st_world st))
                       else st_world st);
                 temp_file = tmp_name page2 tx2 ty2
             in if \<not> save_ok e temp_file then Inl (OSError, w1)
                else
                  let w2 = w1\<lparr>files := insert temp_file (files w1),
                               trace := trace w1 @ [Save temp_file im]\<rparr>;
                      x = x0 L + of_int tx2 * width (total_mm L);
                      y = y0 L + of_int ty2 * height (total_mm L)
                  in Inr \<lparr>st_i = st_i st + 1, st_page = page2, st_tx = tx2, st_ty = ty2,
                           st_x = Some x, st_y = Some y,
                           st_tmp_files = st_tmp_files st @ [temp_file],
                           st_world = emit (place_events p L temp_file x y (st_i st)) w2\<rparr>)"

fun frame_loop ::
  "env \<Rightarrow> creator \<Rightarrow> params \<Rightarrow> layout \<Rightarrow> loop_state \<Rightarrow> frame_obj list \<Rightarrow>
     (error \<times> world) + loop_state" where
  "frame_loop e self p L st [] = Inr st"
| "frame_loop e self p L st (f # fs) =
    (case frame_body e self p L st f of
       Inl err \<Rightarrow> Inl err
     | Inr st' \<Rightarrow> frame_loop e self p L st' fs)"

subsection \<open>After the loop (lines 236 to 245)\<close>

fun remove_all :: "string list \<Rightarrow> world \<Rightarrow> (error \<times> world) + world" where
  "remove_all [] w = Inr w"
| "remove_all (temp_file # rest) w =
    (if temp_file \<in> files w
     then remove_all rest (w\<lparr>files := files w - {temp_file}, trace := trace w @ [Remove temp_file]\<rparr>)
     else Inl (FileNotFoundError, w))"

definition pdf_output :: "env \<Rightarrow> string option \<Rightarrow> world \<Rightarrow> (error \<times> world) + world" where
  "pdf_output e name w =
    (if \<not> output_ok e name then Inl (OSError, w)
     else Inr (w\<lparr>files := (case name of None \<Rightarrow> files w | Some n \<Rightarrow> insert n (files w)),
                trace := trace w @ [Output name]\<rparr>))"

text \<open>
  Lines 236 and 237. Python evaluates \<open>y != 0\<close> first and \<open>x != 0\<close> only when the first
  holds; reading an unbound local raises \<open>UnboundLocalError\<close>.
\<close>

definition end_raster :: "params \<Rightarrow> layout \<Rightarrow> loop_state \<Rightarrow> (error \<times> world) + world" where
  "end_raster p L st =
    (case st_y st of
       None \<Rightarrow> Inl (UnboundLocalError, st_world st)
     | Some y \<Rightarrow>
        if y \<noteq> 0 then
          (case st_x st of
             None \<Rightarrow> Inl (UnboundLocalError, st_world st)
           | Some x \<Rightarrow> if x \<noteq> 0 then Inr (draw_raster p L (st_world st)) else Inr (st_world st))
        else Inr (st_world st))"

definition finish :: "env \<Rightarrow> params \<Rightarrow> layout \<Rightarrow> loop_state \<Rightarrow> (error \<times> world) + world" where
  "finish e p L st =
    (case end_raster p L st of
       Inl err \<Rightarrow> Inl err
     | Inr w1 \<Rightarrow>
        (case pdf_output e (output_file_name p) w1 of
           Inl err \<Rightarrow> Inl err
         | Inr w2 \<Rightarrow> remove_all (st_tmp_files st) w2))"

subsection \<open>\<open>process\<close>\<close>

definition process :: "env \<Rightarrow> creator \<Rightarrow> params \<Rightarrow> world \<Rightarrow> (error \<times> world) + world" where
  "process e self p w =
    (case prepare e self p w of
       Inl err \<Rightarrow> Inl err
     | Inr (self', clip_sz, tmps, w1) \<Rightarrow>
        (case plan_layout p clip_sz of
           Inl err \<Rightarrow> Inl (err, w1)
         | Inr L \<Rightarrow>
            (case frame_loop e self' p L (init_state tmps (emit [AddPage] w1)) (all_frames self') of
               Inl err \<Rightarrow> Inl err
             | Inr st \<Rightarrow> finish e p L st)))"

section \<open>\<open>main\<close>\<close>

text \<open>
  The parsed command line, after \<open>argparse\<close> has converted each value to its declared type.
  \<open>-v\<close> given without a value yields \<open>None\<close>.
\<close>

record args =
  arg_video :: string
  arg_out :: string
  arg_height :: rat
  arg_paper :: string
  arg_offset :: rat
  arg_phena :: bool
  arg_dpi :: int
  arg_fps :: int
  arg_v :: "int option"

text \<open>
  How the program ends: normally, through \<open>argparse\<close> rejecting an argument (it prints the
  usage and a message naming the option and the rejected value, and exits with status 2),
  through \<open>sys.exit\<close> after a printed message, or with the traceback of an uncaught exception.
\<close>

datatype exit = Success | ParserError string string | SysExit int string | Traceback error

fun exit_status :: "exit \<Rightarrow> int" where
  "exit_status Success = 0"
| "exit_status (ParserError opt val) = 2"
| "exit_status (SysExit n msg) = n"
| "exit_status (Traceback err) = 1"

text \<open>The keyword arguments of the call of \<open>process\<close> in \<open>main\<close>; the others keep their defaults.\<close>

definition process_args :: "args \<Rightarrow> params" where
  "process_args a =
    process_defaults\<lparr>paper_format := arg_paper a,
                      output_file_name := Some (arg_out a),
                      height_mm := arg_height a,
                      dpi := arg_dpi a,
                      offset := arg_offset a\<rparr>"

definition main :: "env \<Rightarrow> args \<Rightarrow> world \<Rightarrow> exit \<times> world" where
  "main e a w =
    (if arg_paper a \<notin> set PAPER_CHOICES then (ParserError ''--paper'' (arg_paper a), w)
     else if arg_phena a then (SysExit 1 ''Phenakistoscope not supported yet.'', w)
     else
       (case FlipbookCreator_init e (arg_v a) (arg_video a) w of
          Inl (err, w1) \<Rightarrow> (Traceback err, w1)
        | Inr (flippy, w1) \<Rightarrow>
           (case process e flippy (process_args a) w1 of
              Inl (err, w2) \<Rightarrow> (Traceback err, w2)
            | Inr w2 \<Rightarrow> (Success, w2))))"

section \<open>Notions used to state the properties\<close>

subsection \<open>Rounding as the specification words it\<close>

text \<open>
  Python's \<open>round\<close>: the nearest integer, a tie going to the even neighbour. This follows the
  specification's formula for the pixel size, not the source, which calls \<open>int\<close>.
\<close>

definition spec_round :: "rat \<Rightarrow> int" where
  "spec_round q =
    (let f = \<lfloor>q\<rfloor>; d = q - of_int f
     in if d < 1 / 2 then f else if 1 / 2 < d then f + 1 else if even f then f else f + 1)"

subsection \<open>Pages, tiles and raster grids in a trace\<close>

datatype mark = NewPage | Tile | Grid

fun mark_of :: "event \<Rightarrow> mark list" where
  "mark_of AddPage = [NewPage]"
| "mark_of (PdfImage n x y w h) = [Tile]"
| "mark_of (Raster ls) = [Grid]"
| "mark_of ev = []"

definition marks :: "event list \<Rightarrow> mark list" where
  "marks tr = concat (map mark_of tr)"

text \<open>A page that holds \<open>m\<close> tiles and gets its raster grid once, after its last tile.\<close>

definition page_block :: "nat \<Rightarrow> mark list" where
  "page_block m = NewPage # replicate m Tile @ [Grid]"

text \<open>
  How \<open>n\<close> frames fill pages of \<open>c\<close> tiles: every page but the last is full, the last
  one holds what remains, at least one tile.
\<close>

definition page_fill :: "nat \<Rightarrow> nat \<Rightarrow> nat list" where
  "page_fill c n = replicate ((n - 1) div c) c @ [n - ((n - 1) div c) * c]"

definition spec_pages :: "nat \<Rightarrow> nat \<Rightarrow> mark list" where
  "spec_pages c n = concat (map page_block (page_fill c n))"

subsection \<open>The events of one tile, by frame index\<close>

fun is_tile_event :: "event \<Rightarrow> bool" where
  "is_tile_event (Save n im) = True"
| "is_tile_event (PdfImage n x y w h) = True"
| "is_tile_event (RotateAt a x y) = True"
| "is_tile_event (Rotate a) = True"
| "is_tile_event (Text x y s) = True"
| "is_tile_event ev = False"

text \<open>
  Row-major placement: the image \<open>im\<close> of frame \<open>k\<close> (counted from 0) on page
  \<open>k div (nx * ny)\<close>, in column \<open>k mod nx\<close> of row \<open>(k div nx) mod ny\<close>, labelled \<open>k\<close>.
\<close>

definition tile_events :: "params \<Rightarrow> layout \<Rightarrow> int \<Rightarrow> image \<Rightarrow> event list" where
  "tile_events p L k im =
    (let pg = k div (nx L * ny L);
         t = k mod nx L;
         u = (k div nx L) mod ny L;
         temp_file = tmp_name pg t u
     in Save temp_file im #
        place_events p L temp_file
          (x0 L + of_int t * width (total_mm L))
          (y0 L + of_int u * height (total_mm L)) k)"

definition expected_tiles :: "params \<Rightarrow> layout \<Rightarrow> image list \<Rightarrow> event list" where
  "expected_tiles p L ims =
    concat (map (\<lambda>(k, im). tile_events p L (int k) im) (enumerate 0 ims))"

fun is_image :: "event \<Rightarrow> bool" where
  "is_image (PdfImage n x y w h) = True"
| "is_image ev = False"

subsection \<open>Saved images\<close>

text \<open>The images a trace writes to temporary files.\<close>

fun saved_image :: "event \<Rightarrow> image list" where
  "saved_image (Save n im) = [im]"
| "saved_image ev = []"

definition saved_images :: "event list \<Rightarrow> image list" where
  "saved_images tr = concat (map saved_image tr)"

subsection \<open>Temporary files a trace creates\<close>

fun created_by :: "event \<Rightarrow> string list" where
  "created_by (Save n im) = [n]"
| "created_by (Transcode r) = [''tmp.mp4'']"
| "created_by ev = []"

definition created_files :: "event list \<Rightarrow> string list" where
  "created_files tr = concat (map created_by tr)"

subsection \<open>Invariants of the frame loop\<close>

text \<open>
  With at least one column and one row, the loop variables stay inside the grid and the
  frame counter is the row-major position.
\<close>

definition grid_inv :: "layout \<Rightarrow> loop_state \<Rightarrow> bool" where
  "grid_inv L st \<longleftrightarrow>
     1 \<le> nx L \<and> 1 \<le> ny L \<and>
     - 1 \<le> st_tx st \<and> st_tx st < nx L \<and> 0 \<le> st_ty st \<and> st_ty st < ny L \<and> 0 \<le> st_page st \<and>
     st_i st = st_page st * (nx L * ny L) + st_ty st * nx L + st_tx st + 1"

text \<open>The slot the loop body moves to, as the branches of lines 203 and 211 to 218.\<close>

definition next_slot :: "layout \<Rightarrow> loop_state \<Rightarrow> int \<times> int \<times> int" where
  "next_slot L st =
    (if st_tx st + 1 \<noteq> nx L then (st_page st, st_tx st + 1, st_ty st)
     else if st_ty st + 1 \<noteq> ny L then (st_page st, 0, st_ty st + 1)
     else (st_page st + 1, 0, 0))"

definition page_break :: "layout \<Rightarrow> loop_state \<Rightarrow> bool" where
  "page_break L st \<longleftrightarrow> st_tx st + 1 = nx L \<and> st_ty st + 1 = ny L"

definition pages_inv :: "layout \<Rightarrow> loop_state \<Rightarrow> bool" where
  "pages_inv L st \<longleftrightarrow>
     marks (trace (st_world st)) =
       concat (replicate (nat (st_page st)) (page_block (nat (nx L * ny L))))
       @ NewPage # replicate (nat (st_ty st * nx L + st_tx st + 1)) Tile"

text \<open>After at least one frame the coordinates are bound to the current slot.\<close>

definition placed :: "layout \<Rightarrow> loop_state \<Rightarrow> bool" where
  "placed L st \<longleftrightarrow>
     0 \<le> st_tx st \<and>
     st_x st = Some (x0 L + of_int (st_tx st) * width (total_mm L)) \<and>
     st_y st = Some (y0 L + of_int (st_ty st) * height (total_mm L))"

text \<open>Every temporary file the trace created is on the list \<open>tmp_files\<close>.\<close>

definition tmp_inv :: "loop_state \<Rightarrow> bool" where
  "tmp_inv st \<longleftrightarrow> set (created_files (trace (st_world st))) \<subseteq> set (st_tmp_files st)"

section \<open>Example inputs\<close>

text \<open>
  The scenario of the specification: A4 paper, the default margins of 10 mm, frames 30 mm
  high, an offset of 15 mm, at \<open>d\<close> dots per inch.
\<close>

definition scenario :: "int \<Rightarrow> params" where
  "scenario d = process_defaults\<lparr>paper_format := ''a4'', height_mm := 30, offset := 15, dpi := d\<rparr>"

text \<open>The layout of the scenario at 200 DPI for a source of 1920 x 1080 pixels.\<close>

definition scenario_layout :: layout where
  "scenario_layout =
    \<lparr>paper = \<lparr>width = 297, height = 210\<rparr>,
     printable_area = \<lparr>width = 277, height = 190\<rparr>,
     frame_mm = \<lparr>width = 160 / 3, height = 30\<rparr>,
     total_mm = \<lparr>width = 205 / 3, height = 30\<rparr>,
     frame = \<lparr>width = 419, height = 236\<rparr>,
     nx = 4, ny = 6, x0 = 10, y0 = 10, x1 = 850 / 3, y1 = 190\<rparr>"

text \<open>
  An environment in which files open and can be written: any file opens, as a GIF of one
  frame of 500 x 500 pixels or as a clip of three frames of 1920 x 1080 pixels at 10 frames
  per second; transcoding keeps the duration and yields the frames that fit it at the new
  rate; \<open>thumbnail\<close> raises for a box with a negative or a zero side, as PIL does, and
  otherwise bounds each side by the box.
\<close>

definition clip_of :: "rat \<Rightarrow> nat \<Rightarrow> clip" where
  "clip_of r n =
    \<lparr>clip_fps = r, duration = of_nat n / r, clip_size = (1920, 1080),
     iter_frames = replicate n (NdArray (1920, 1080))\<rparr>"

definition env_ok :: env where
  "env_ok =
    \<lparr>image_open = (\<lambda>name. Some \<lparr>gif_size = (500, 500), gif_n_frames = 1\<rparr>),
     video_open = (\<lambda>name. Some (clip_of 10 3)),
     transcode = (\<lambda>c r. Some (c\<lparr>clip_fps := r,
                                  iter_frames := replicate (nat \<lceil>duration c * r\<rceil>)
                                                   (NdArray (clip_size c))\<rparr>)),
     thumbnail = (\<lambda>box im.
        if fst box < 0 \<or> snd box < 0 then Inl ValueError
        else if fst box = 0 \<or> snd box = 0 then Inl ZeroDivisionError
        else Inr (Image (min (fst box) (fst (im_size im)), min (snd box) (snd (im_size im))))),
     save_ok = (\<lambda>name. True),
     output_ok = (\<lambda>name. True)\<rparr>"

definition world0 :: world where
  "world0 = \<lparr>files = {}, trace = []\<rparr>"

text \<open>The command line \<open>flippy.py v.mp4\<close>, every option at its default.\<close>

definition cli_args :: args where
  "cli_args =
    \<lparr>arg_video = ''v.mp4'', arg_out = ''flip-book.pdf'', arg_height = 30, arg_paper = ''a4'',
     arg_offset = 15, arg_phena = False, arg_dpi = 200, arg_fps = 10, arg_v = Some 1\<rparr>"

text \<open>
  Creators as the constructor leaves them: for a GIF of one frame, and for a clip of \<open>n\<close>
  frames at \<open>r\<close> frames per second. In \<open>env_no_output\<close> the document cannot be written.
\<close>

definition gif_creator :: creator where
  "gif_creator =
    \<lparr>verbosity = 1, input_file_name = ''x.gif'',
     src = Gif \<lparr>gif_size = (500, 500), gif_n_frames = 1\<rparr>, self_fps = 0, frame_count = 1\<rparr>"

definition clip_creator :: "rat \<Rightarrow> nat \<Rightarrow> creator" where
  "clip_creator r n =
    \<lparr>verbosity = 1, input_file_name = ''v.mp4'', src = Clip (clip_of r n), self_fps = r,
     frame_count = py_int (duration (clip_of r n) * r)\<rparr>"

definition env_no_output :: env where
  "env_no_output = env_ok\<lparr>output_ok := (\<lambda>name. False)\<rparr>"

text \<open>What a run on the one-frame GIF does before it writes the document.\<close>

definition gif_run_trace :: "event list" where
  "gif_run_trace =
       [AddPage,
        Save ''tmp-0-0-0.png'' (image.Image (500, 500)),
        PdfImage ''tmp-0-0-0.png'' 25 10 30 30, RotateAt 90 10 38,
        Text 10 43 ''0'', Rotate 0,
        Raster
         [Line 10 10 10 190, Line 25 10 25 190, Line 55 10 55 190,
          Line 70 10 70 190, Line 100 10 100 190, Line 115 10 115 190,
          Line 145 10 145 190, Line 160 10 160 190, Line 190 10 190 190,
          Line 205 10 205 190, Line 235 10 235 190, Line 250 10 250 190,
          Line 280 10 280 190, Line 10 10 280 10, Line 10 40 280 40,
          Line 10 70 280 70, Line 10 100 280 100, Line 10 130 280 130,
          Line 10 160 280 160, Line 10 190 280 190]]"

text \<open>
  Frames 90 mm high without offset: one column, two rows. The layout, the loop state
  after the three frames of the example clip, and the world after the run.
\<close>

definition tall_args :: args where
  "tall_args = cli_args\<lparr>arg_height := 90, arg_offset := 0\<rparr>"

definition tall_layout :: layout where
  "tall_layout =
    \<lparr>paper = \<lparr>width = 297, height = 210\<rparr>,
     printable_area = \<lparr>width = 277, height = 190\<rparr>,
     frame_mm = \<lparr>width = 160, height = 90\<rparr>,
     total_mm = \<lparr>width = 160, height = 90\<rparr>,
     frame = \<lparr>width = 1259, height = 708\<rparr>,
     nx = 1, ny = 2, x0 = 10, y0 = 10, x1 = 170, y1 = 190\<rparr>"

definition tall_raster :: event where
  "tall_raster =
    Raster [Line 10 10 10 190, Line 170 10 170 190, Line 10 10 170 10,
            Line 10 100 170 100, Line 10 190 170 190]"

definition tall_tiles :: "event list" where
  "tall_tiles =
    [Save ''tmp-0-0-0.png'' (Image (1259, 708)),
     PdfImage ''tmp-0-0-0.png'' 10 10 160 90,
     Save ''tmp-0-0-1.png'' (Image (1259, 708)),
     PdfImage ''tmp-0-0-1.png'' 10 100 160 90,
     Save ''tmp-1-0-0.png'' (Image (1259, 708)),
     PdfImage ''tmp-1-0-0.png'' 10 10 160 90]"

definition tall_world :: world where
  "tall_world =
    \<lparr>files = {''flip-book.pdf''},
     trace =
       [AddPage,
        Save ''tmp-0-0-0.png'' (Image (1259, 708)),
        PdfImage ''tmp-0-0-0.png'' 10 10 160 90,
        Save ''tmp-0-0-1.png'' (Image (1259, 708)),
        PdfImage ''tmp-0-0-1.png'' 10 100 160 90,
        tall_raster,
        AddPage,
        Save ''tmp-1-0-0.png'' (Image (1259, 708)),
        PdfImage ''tmp-1-0-0.png'' 10 10 160 90,
        tall_raster,
        Output (Some ''flip-book.pdf''),
        Remove ''tmp-0-0-0.png'', Remove ''tmp-0-0-1.png'', Remove ''tmp-1-0-0.png'']\<rparr>"

definition tall_state :: loop_state where
  "tall_state =
    \<lparr>st_i = 3, st_page = 1, st_tx = 0, st_ty = 0, st_x = Some 10, st_y = Some 10,
     st_tmp_files = [''tmp-0-0-0.png'', ''tmp-0-0-1.png'', ''tmp-1-0-0.png''],
     st_world =
       \<lparr>files = {''tmp-1-0-0.png'', ''tmp-0-0-1.png'', ''tmp-0-0-0.png''},
        trace =
          [Save ''tmp-0-0-0.png'' (Image (1259, 708)),
           PdfImage ''tmp-0-0-0.png'' 10 10 160 90,
           Save ''tmp-0-0-1.png'' (Image (1259, 708)),
           PdfImage ''tmp-0-0-1.png'' 10 100 160 90,
           tall_raster,
           AddPage,
           Save ''tmp-1-0-0.png'' (Image (1259, 708)),
           PdfImage ''tmp-1-0-0.png'' 10 10 160 90]\<rparr>\<rparr>"

text \<open>Frames 300 mm high: no column and no row fit the page.\<close>

definition huge_args :: args where
  "huge_args = cli_args\<lparr>arg_height := 300\<rparr>"


text \<open>A GIF source with cells wider than the page and as high as the printable area: no column, one row.\<close>

definition wide_gif_args :: args where
  "wide_gif_args = cli_args\<lparr>arg_video := ''x.gif'', arg_height := 190, arg_offset := 300\<rparr>"

text \<open>The command line \<open>flippy.py x.gif\<close>.\<close>

definition gif_args :: args where
  "gif_args = cli_args\<lparr>arg_video := ''x.gif''\<rparr>"

text \<open>
  The world after a run with the one-column layout on a clip of five frames at 25 frames
  per second, which is transcoded to two frames at 10.
\<close>

definition transcoded_world :: world where
  "transcoded_world =
    \<lparr>files = {''flip-book.pdf''},
     trace =
       [Transcode 10, AddPage,
        Save ''tmp-0-0-0.png'' (Image (1259, 708)),
        PdfImage ''tmp-0-0-0.png'' 10 10 160 90,
        Save ''tmp-0-0-1.png'' (Image (1259, 708)),
        PdfImage ''tmp-0-0-1.png'' 10 100 160 90,
        tall_raster,
        Output (Some ''flip-book.pdf''),
        Remove ''tmp.mp4'', Remove ''tmp-0-0-0.png'', Remove ''tmp-0-0-1.png'']\<rparr>"

section \<open>Properties\<close>

subsection \<open>The geometry\<close>

lemma lower_a4: "lower ''a4'' = ''a4''"
  by (simp add: lower_def lower_char_def)

lemma PAPER_a4: "PAPER_SIZES ''a4'' = Some \<lparr>width = 297, height = 210\<rparr>"
  by (simp add: PAPER_SIZES_def paper_table_def)

lemma py_int_abs: "\<bar>of_int (py_int q)\<bar> \<le> \<bar>q\<bar> \<and> \<bar>q - of_int (py_int q)\<bar> < 1"
proof (cases "0 \<le> q")
  case True
  define n where "n = \<lfloor>q\<rfloor>"
  have "0 \<le> n" using True by (simp add: n_def)
  then have "(0::rat) \<le> of_int n" by simp
  moreover have "of_int n \<le> q" "q < of_int n + 1" unfolding n_def by linarith+
  ultimately have "\<bar>of_int n\<bar> \<le> \<bar>q\<bar> \<and> \<bar>q - of_int n\<bar> < 1" by linarith
  then show ?thesis using True by (simp add: py_int_def n_def)
next
  case False
  define n where "n = \<lceil>q\<rceil>"
  have "n \<le> 0" using False by (simp add: n_def ceiling_le_iff)
  then have "(of_int n :: rat) \<le> 0" by simp
  moreover have "q \<le> of_int n" "of_int n < q + 1" unfolding n_def by linarith+
  ultimately have "\<bar>of_int n\<bar> \<le> \<bar>q\<bar> \<and> \<bar>q - of_int n\<bar> < 1" by linarith
  then show ?thesis using False by (simp add: py_int_def n_def)
qed

lemma plan_layout_Inr:
  assumes "PAPER_SIZES (lower (paper_format p)) = Some pap"
    and "height cs \<noteq> 0"
    and "fw = height_mm p / of_int (height cs) * of_int (width cs)"
    and "offset p + fw \<noteq> 0"
    and "height_mm p \<noteq> 0"
    and "pw = width pap - left_mm (margins p) - right_mm (margins p)"
    and "ph = height pap - top_mm (margins p) - bottom_mm (margins p)"
  shows "plan_layout p cs =
    Inr \<lparr>paper = pap,
         printable_area = \<lparr>width = pw, height = ph\<rparr>,
         frame_mm = \<lparr>width = fw, height = height_mm p\<rparr>,
         total_mm = \<lparr>width = offset p + fw, height = height_mm p\<rparr>,
         frame = \<lparr>width = py_int (fw / (254 / 10) * of_int (dpi p)),
                  height = py_int (height_mm p / (254 / 10) * of_int (dpi p))\<rparr>,
         nx = py_int (pw / (offset p + fw)),
         ny = py_int (ph / height_mm p),
         x0 = left_mm (margins p), y0 = top_mm (margins p),
         x1 = left_mm (margins p) + of_int (py_int (pw / (offset p + fw))) * (offset p + fw),
         y1 = top_mm (margins p) + of_int (py_int (ph / height_mm p)) * height_mm p\<rparr>"
  using assms by (simp add: plan_layout_def Let_def)

text \<open>
  Claim C6: for A4 paper, margins of 10 mm, a frame height of 30 mm, an offset of 15 mm and
  any source of aspect ratio 16/9, the planner yields the printable area 277 x 190, the
  frame 160/3 x 30 (53.33 within a hundredth), the cell 205/3 x 30 (68.33 within a
  hundredth), 4 columns and 6 rows, 24 tiles per page.
\<close>

theorem scenario_a4:
  assumes "9 * width cs = 16 * height cs" "0 < height cs"
  shows "\<exists>L. plan_layout (scenario d) cs = Inr L \<and>
           printable_area L = \<lparr>width = 277, height = 190\<rparr> \<and>
           frame_mm L = \<lparr>width = 160 / 3, height = 30\<rparr> \<and>
           \<bar>width (frame_mm L) - 5333 / 100\<bar> < 1 / 100 \<and>
           total_mm L = \<lparr>width = 205 / 3, height = 30\<rparr> \<and>
           \<bar>width (total_mm L) - 6833 / 100\<bar> < 1 / 100 \<and>
           nx L = 4 \<and> ny L = 6 \<and> nx L * ny L = 24"
proof -
  have h: "(of_int (height cs) :: rat) \<noteq> 0" using assms(2) by simp
  have "(of_int (9 * width cs) :: rat) = of_int (16 * height cs)" using assms(1) by simp
  then have "(of_int (width cs) :: rat) = 16 / 9 * of_int (height cs)" by simp
  then have w: "160 / 3 = height_mm (scenario d) / (of_int (height cs) :: rat) * of_int (width cs)"
    using h by (simp only:) (simp add: field_simps scenario_def)
  have "plan_layout (scenario d) cs =
    Inr \<lparr>paper = \<lparr>width = 297, height = 210\<rparr>,
         printable_area = \<lparr>width = 277, height = 190\<rparr>,
         frame_mm = \<lparr>width = 160 / 3, height = height_mm (scenario d)\<rparr>,
         total_mm = \<lparr>width = offset (scenario d) + 160 / 3, height = height_mm (scenario d)\<rparr>,
         frame = \<lparr>width = py_int (160 / 3 / (254 / 10) * of_int (dpi (scenario d))),
                  height = py_int (height_mm (scenario d) / (254 / 10) * of_int (dpi (scenario d)))\<rparr>,
         nx = py_int (277 / (offset (scenario d) + 160 / 3)),
         ny = py_int (190 / height_mm (scenario d)),
         x0 = left_mm (margins (scenario d)), y0 = top_mm (margins (scenario d)),
         x1 = left_mm (margins (scenario d))
              + of_int (py_int (277 / (offset (scenario d) + 160 / 3))) * (offset (scenario d) + 160 / 3),
         y1 = top_mm (margins (scenario d))
              + of_int (py_int (190 / height_mm (scenario d))) * height_mm (scenario d)\<rparr>"
    using assms(2)
    by (intro plan_layout_Inr w)
       (simp_all add: scenario_def process_defaults_def lower_a4 PAPER_a4)
  moreover have "\<lfloor>831 / 205 :: rat\<rfloor> = 4" "\<lfloor>19 / 3 :: rat\<rfloor> = 6"
    by (simp_all add: floor_eq_iff)
  ultimately show ?thesis
    by (simp add: scenario_def process_defaults_def py_int_def)
qed

theorem scenario_a4_witness:
  "9 * width \<lparr>width = 1920, height = (1080::int)\<rparr> = 16 * height \<lparr>width = (1920::int), height = 1080\<rparr> \<and>
   0 < height \<lparr>width = (1920::int), height = 1080\<rparr> \<and>
   (\<exists>L. plan_layout (scenario 200) \<lparr>width = 1920, height = 1080\<rparr> = Inr L \<and> nx L = 4 \<and> ny L = 6)"
  using scenario_a4[of "\<lparr>width = 1920, height = 1080\<rparr>" 200] by auto

text \<open>
  Claim C8, amended: each component of the pixel size is the millimetre size divided by
  25.4 and multiplied by the DPI, truncated toward zero (it is not larger in absolute value
  and differs by less than one), not rounded to the nearest integer.
\<close>

theorem frame_px_truncates:
  assumes "plan_layout p cs = Inr L"
  shows "\<bar>of_int (width (frame L))\<bar> \<le> \<bar>width (frame_mm L) / (254 / 10) * of_int (dpi p)\<bar> \<and>
         \<bar>width (frame_mm L) / (254 / 10) * of_int (dpi p) - of_int (width (frame L))\<bar> < 1 \<and>
         \<bar>of_int (height (frame L))\<bar> \<le> \<bar>height (frame_mm L) / (254 / 10) * of_int (dpi p)\<bar> \<and>
         \<bar>height (frame_mm L) / (254 / 10) * of_int (dpi p) - of_int (height (frame L))\<bar> < 1"
proof -
  from assms have eq:
    "width (frame L) = py_int (width (frame_mm L) / (254 / 10) * of_int (dpi p))"
    "height (frame L) = py_int (height (frame_mm L) / (254 / 10) * of_int (dpi p))"
    by (auto simp add: plan_layout_def Let_def split: option.splits if_splits)
  show ?thesis
    unfolding eq
    using py_int_abs[of "width (frame_mm L) / (254 / 10) * of_int (dpi p)"]
      py_int_abs[of "height (frame_mm L) / (254 / 10) * of_int (dpi p)"]
    by blast
qed

theorem frame_px_truncates_witness:
  "plan_layout (scenario 200) \<lparr>width = 1920, height = 1080\<rparr> = Inr scenario_layout \<and>
   \<bar>of_int (width (frame scenario_layout)) :: rat\<bar>
     \<le> \<bar>width (frame_mm scenario_layout) / (254 / 10) * of_int (dpi (scenario 200))\<bar> \<and>
   width (frame scenario_layout) = 419"
proof -
  have pl: "plan_layout (scenario 200) \<lparr>width = 1920, height = 1080\<rparr> = Inr scenario_layout"
    by code_simp
  have "width (frame scenario_layout) = 419"
    by code_simp
  with pl frame_px_truncates[OF pl] show ?thesis by simp
qed

text \<open>
  Claim C8 as stated fails in the scenario at 200 DPI: the frame is 160/3 mm wide, which is
  419.95 pixels; the source computes 419, rounding gives 420.
\<close>

theorem frame_px_counterexample:
  "map_sum id (\<lambda>L. (width (frame L), spec_round (width (frame_mm L) / (254 / 10) * of_int (dpi (scenario 200)))))
     (plan_layout (scenario 200) \<lparr>width = 1920, height = 1080\<rparr>) = Inr (419, 420)"
  by code_simp

subsection \<open>The command line\<close>

text \<open>
  Claim C1 says that the target frame rate of \<open>process\<close> is the value of \<open>--fps\<close>. The call
  in \<open>main\<close> does not pass \<open>args.fps\<close>: whatever \<open>--fps\<close> is, \<open>process\<close> runs with its
  default of 10, and two command lines that differ in \<open>--fps\<close> only call it identically.
\<close>

theorem process_args_fps: "fps (process_args a) = 10 \<and> process_args (a\<lparr>arg_fps := n\<rparr>) = process_args a"
  by (simp add: process_args_def process_defaults_def)

text \<open>
  Claim C9: a run whose \<open>--paper\<close> value is not a key of the catalog ends in the argument
  parser, with a message naming the option and the value and a non-zero exit status; the
  world is unchanged, so no source was opened, no frame decoded and no file created.
\<close>

theorem main_unknown_paper:
  assumes "PAPER_SIZES (arg_paper a) = None"
  shows "main e a w = (ParserError ''--paper'' (arg_paper a), w) \<and> exit_status (fst (main e a w)) \<noteq> 0"
proof -
  from assms have "arg_paper a \<notin> set PAPER_CHOICES"
    by (simp add: PAPER_SIZES_def PAPER_CHOICES_def map_of_eq_None_iff)
  then show ?thesis by (simp add: main_def)
qed

theorem main_unknown_paper_witness:
  "PAPER_SIZES (arg_paper (cli_args\<lparr>arg_paper := ''bogus''\<rparr>)) = None \<and>
   main env_ok (cli_args\<lparr>arg_paper := ''bogus''\<rparr>) world0 = (ParserError ''--paper'' ''bogus'', world0)"
proof -
  have h: "PAPER_SIZES (arg_paper (cli_args\<lparr>arg_paper := ''bogus''\<rparr>)) = None"
    by (simp add: PAPER_SIZES_def paper_table_def)
  from main_unknown_paper[OF h, of env_ok world0] h show ?thesis by simp
qed


text \<open>
  The order matters for callers of \<open>process\<close> other than \<open>main\<close>: \<open>process\<close> itself looks
  the paper up only after transcoding, so a direct call with an unknown key on a source
  whose rate is not the target rate fails with \<open>KeyError\<close> after \<open>tmp.mp4\<close> was written.
\<close>

lemma process_unknown_paper_after_transcode:
  "process env_ok (clip_creator 25 3) (process_defaults\<lparr>paper_format := ''bogus''\<rparr>) world0 =
     Inl (KeyError, \<lparr>files = {''tmp.mp4''}, trace = [Transcode 10]\<rparr>)"
  by code_simp

subsection \<open>The frame loop\<close>

lemma marks_append [simp]: "marks (a @ b) = marks a @ marks b"
  by (simp add: marks_def)

lemma marks_Nil [simp]: "marks [] = []"
  by (simp add: marks_def)

lemma marks_Cons [simp]: "marks (ev # tr) = mark_of ev @ marks tr"
  by (simp add: marks_def)

lemma marks_place_events [simp]: "marks (place_events p L n x y i) = [Tile]"
  by (simp add: place_events_def Let_def)

lemma frame_body_Inr:
  assumes "frame_body e self p L st f = Inr st'"
  shows "(st_page st', st_tx st', st_ty st') = next_slot L st"
    and "st_i st' = st_i st + 1"
    and "st_x st' = Some (x0 L + of_int (st_tx st') * width (total_mm L))"
    and "st_y st' = Some (y0 L + of_int (st_ty st') * height (total_mm L))"
    and "st_tmp_files st' = st_tmp_files st @ [tmp_name (st_page st') (st_tx st') (st_ty st')]"
    and "trace (st_world st') = trace (st_world st)
           @ (if page_break L st then [Raster (raster_lines p L), AddPage] else [])
           @ Save (tmp_name (st_page st') (st_tx st') (st_ty st')) (projr (frame_image e L f))
           # place_events p L (tmp_name (st_page st') (st_tx st') (st_ty st'))
               (x0 L + of_int (st_tx st') * width (total_mm L))
               (y0 L + of_int (st_ty st') * height (total_mm L)) (st_i st)"
    and "files (st_world st') = insert (tmp_name (st_page st') (st_tx st') (st_ty st')) (files (st_world st))"
    and "frame_count self \<noteq> 0"
    and "save_ok e (tmp_name (st_page st') (st_tx st') (st_ty st'))"
    and "frame_image e L f = Inr (projr (frame_image e L f))"
  using assms
  by (auto simp add: frame_body_def Let_def next_slot_def page_break_def emit_def draw_raster_def
      split: if_splits sum.splits)

lemma next_slot_grid:
  assumes "grid_inv L st" "(pg, t, u) = next_slot L st"
  shows "0 \<le> t \<and> t < nx L \<and> 0 \<le> u \<and> u < ny L \<and> 0 \<le> pg \<and>
         st_i st = pg * (nx L * ny L) + u * nx L + t"
proof -
  consider (a) "st_tx st + 1 \<noteq> nx L" | (b) "st_tx st + 1 = nx L" "st_ty st + 1 \<noteq> ny L"
    | (c) "st_tx st + 1 = nx L" "st_ty st + 1 = ny L" by blast
  then show ?thesis
  proof cases
    case a
    with assms show ?thesis by (simp add: next_slot_def grid_inv_def)
  next
    case b
    have "st_tx st = nx L - 1" using b by simp
    with assms b show ?thesis by (simp add: next_slot_def grid_inv_def algebra_simps)
  next
    case c
    have "st_tx st = nx L - 1" "st_ty st = ny L - 1" using c by simp_all
    with assms c show ?thesis by (simp add: next_slot_def grid_inv_def algebra_simps)
  qed
qed

lemma frame_body_grid_inv:
  assumes "frame_body e self p L st f = Inr st'" "grid_inv L st"
  shows "grid_inv L st'" and "0 \<le> st_tx st'"
  using next_slot_grid[OF assms(2) frame_body_Inr(1)[OF assms(1)]] frame_body_Inr(2)[OF assms(1)]
  by (simp_all add: grid_inv_def)


lemma fill_nonneg: "0 \<le> (u::int) \<Longrightarrow> 1 \<le> n \<Longrightarrow> - 1 \<le> t \<Longrightarrow> 0 \<le> u * n + t + 1"
proof -
  assume "0 \<le> u" "1 \<le> n" "- 1 \<le> t"
  then have "0 \<le> u * n" by simp
  with \<open>- 1 \<le> t\<close> show ?thesis by linarith
qed

lemma fill_full: "(t::int) + 1 = n \<Longrightarrow> u + 1 = m \<Longrightarrow> u * n + t + 1 = n * m"
proof -
  assume "t + 1 = n" "u + 1 = m"
  then have "n = t + 1" "m = u + 1" by simp_all
  then show ?thesis by (simp add: algebra_simps)
qed

lemma fill_next_row: "(t::int) + 1 = n \<Longrightarrow> (u + 1) * n + 0 + 1 = (u * n + t + 1) + 1"
proof -
  assume "t + 1 = n"
  then have "n = t + 1" by simp
  then show ?thesis by (simp add: algebra_simps)
qed

lemma concat_replicate_snoc: "concat (replicate (Suc n) b) = concat (replicate n b) @ b"
  by (induction n) simp_all

lemma grid_fill_bounds:
  assumes "grid_inv L st"
  shows "0 \<le> st_ty st * nx L + st_tx st + 1"
    and "st_ty st * nx L + st_tx st + 1 \<le> nx L * ny L"
proof -
  show "0 \<le> st_ty st * nx L + st_tx st + 1"
    using assms by (intro fill_nonneg) (simp_all add: grid_inv_def)
  have "st_ty st * nx L \<le> (ny L - 1) * nx L"
    using assms by (intro mult_right_mono) (simp_all add: grid_inv_def)
  then show "st_ty st * nx L + st_tx st + 1 \<le> nx L * ny L"
    using assms by (simp add: grid_inv_def algebra_simps)
qed

lemma frame_loop_grid_inv:
  assumes "frame_loop e self p L st fs = Inr st'" "grid_inv L st"
  shows "grid_inv L st'"
  using assms
proof (induction fs arbitrary: st)
  case Nil
  then show ?case by simp
next
  case (Cons f fs)
  then obtain st1 where b: "frame_body e self p L st f = Inr st1"
    and l: "frame_loop e self p L st1 fs = Inr st'"
    by (auto split: sum.splits)
  from Cons.IH[OF l frame_body_grid_inv(1)[OF b Cons.prems(2)]] show ?case .
qed

lemma frame_body_pages_inv:
  assumes b: "frame_body e self p L st f = Inr st'" and g: "grid_inv L st" and m: "pages_inv L st"
  shows "pages_inv L st'"
proof -
  note fb = frame_body_Inr[OF b]
  let ?blocks = "concat (replicate (nat (st_page st)) (page_block (nat (nx L * ny L))))"
  have tr: "marks (trace (st_world st')) =
      marks (trace (st_world st)) @ (if page_break L st then [Grid, NewPage] else []) @ [Tile]"
    by (simp add: fb(6))
  consider (a) "st_tx st + 1 \<noteq> nx L" | (b) "st_tx st + 1 = nx L" "st_ty st + 1 \<noteq> ny L"
    | (c) "st_tx st + 1 = nx L" "st_ty st + 1 = ny L" by blast
  then show ?thesis
  proof cases
    case a
    then have s: "st_page st' = st_page st" "st_tx st' = st_tx st + 1" "st_ty st' = st_ty st"
      using fb(1) by (simp_all add: next_slot_def)
    have nb: "\<not> page_break L st" using a by (simp add: page_break_def)
    have "0 \<le> st_ty st * nx L + st_tx st + 1" using g by (rule grid_fill_bounds)
    then have "nat (st_ty st * nx L + (st_tx st + 1) + 1) = Suc (nat (st_ty st * nx L + st_tx st + 1))"
      by simp
    then show ?thesis using m tr nb s
      by (simp add: pages_inv_def replicate_append_same)
  next
    case b
    then have s: "st_page st' = st_page st" "st_tx st' = 0" "st_ty st' = st_ty st + 1"
      using fb(1) by (simp_all add: next_slot_def)
    have nb: "\<not> page_break L st" using b by (simp add: page_break_def)
    have "0 \<le> st_ty st * nx L + st_tx st + 1" using g by (rule grid_fill_bounds)
    moreover have "(st_ty st + 1) * nx L + 0 + 1 = (st_ty st * nx L + st_tx st + 1) + 1"
      using b(1) by (rule fill_next_row)
    ultimately have "nat ((st_ty st + 1) * nx L + 0 + 1) = Suc (nat (st_ty st * nx L + st_tx st + 1))"
      by simp
    then show ?thesis using m tr nb s
      by (simp add: pages_inv_def replicate_append_same)
  next
    case c
    then have s: "st_page st' = st_page st + 1" "st_tx st' = 0" "st_ty st' = 0"
      using fb(1) by (simp_all add: next_slot_def)
    have pb: "page_break L st" using c by (simp add: page_break_def)
    have full: "st_ty st * nx L + st_tx st + 1 = nx L * ny L"
      using c by (rule fill_full)
    have "0 \<le> st_page st" using g by (simp add: grid_inv_def)
    then have pg: "nat (st_page st + 1) = Suc (nat (st_page st))" by linarith
    have "marks (trace (st_world st')) = (?blocks @ page_block (nat (nx L * ny L))) @ [NewPage, Tile]"
      using m tr pb full by (simp add: pages_inv_def page_block_def)
    also have "?blocks @ page_block (nat (nx L * ny L))
        = concat (replicate (nat (st_page st')) (page_block (nat (nx L * ny L))))"
      unfolding s pg concat_replicate_snoc ..
    finally show ?thesis
      by (simp add: pages_inv_def s)
  qed
qed

lemma frame_loop_invariant:
  assumes "frame_loop e self p L st fs = Inr st'" "P st"
    and step: "\<And>s f s'. frame_body e self p L s f = Inr s' \<Longrightarrow> P s \<Longrightarrow> P s'"
  shows "P st'"
  using assms(1,2)
proof (induction fs arbitrary: st)
  case Nil
  then show ?case by simp
next
  case (Cons f fs)
  then obtain st1 where b: "frame_body e self p L st f = Inr st1"
    and l: "frame_loop e self p L st1 fs = Inr st'"
    by (auto split: sum.splits)
  from Cons.IH[OF l step[OF b Cons.prems(2)]] show ?case .
qed

lemma frame_loop_count:
  assumes "frame_loop e self p L st fs = Inr st'"
  shows "st_i st' = st_i st + int (length fs)"
  using assms
proof (induction fs arbitrary: st)
  case Nil
  then show ?case by simp
next
  case (Cons f fs)
  then obtain st1 where b: "frame_body e self p L st f = Inr st1"
    and l: "frame_loop e self p L st1 fs = Inr st'"
    by (auto split: sum.splits)
  from Cons.IH[OF l] frame_body_Inr(2)[OF b] show ?case by simp
qed

lemma frame_loop_pages_inv:
  assumes "frame_loop e self p L st fs = Inr st'" "grid_inv L st" "pages_inv L st"
  shows "grid_inv L st' \<and> pages_inv L st'"
  by (rule frame_loop_invariant[OF assms(1), where P = "\<lambda>s. grid_inv L s \<and> pages_inv L s"])
     (use assms(2,3) frame_body_grid_inv(1) frame_body_pages_inv in blast)+

lemma frame_loop_placed:
  assumes "frame_loop e self p L st fs = Inr st'" "grid_inv L st" "fs \<noteq> []"
  shows "placed L st'"
proof -
  from assms(3) obtain f fs' where fs: "fs = f # fs'" by (cases fs) auto
  with assms(1) obtain st1 where b: "frame_body e self p L st f = Inr st1"
    and l: "frame_loop e self p L st1 fs' = Inr st'"
    by (auto split: sum.splits)
  have p1: "grid_inv L st1 \<and> placed L st1"
    using frame_body_grid_inv[OF b assms(2)] frame_body_Inr(3,4)[OF b] by (simp add: placed_def)
  show ?thesis
    using frame_loop_invariant[OF l, where P = "\<lambda>s. grid_inv L s \<and> placed L s", OF p1]
      frame_body_grid_inv frame_body_Inr(3,4)
    by (simp add: placed_def)
qed

lemma process_Inr:
  assumes "process e self p w = Inr w'"
  obtains self' cs tmps w1 L st w2 w3 where
    "prepare e self p w = Inr (self', cs, tmps, w1)"
    "plan_layout p cs = Inr L"
    "frame_loop e self' p L (init_state tmps (emit [AddPage] w1)) (all_frames self') = Inr st"
    "end_raster p L st = Inr w2"
    "pdf_output e (output_file_name p) w2 = Inr w3"
    "remove_all (st_tmp_files st) w3 = Inr w'"
  using assms
  by (auto simp add: process_def finish_def split: sum.splits prod.splits)

lemma remove_all_Inr:
  assumes "remove_all names w = Inr w'"
  shows "files w' = files w - set names \<and> trace w' = trace w @ map Remove names"
  using assms
proof (induction names arbitrary: w)
  case Nil
  then show ?case by simp
next
  case (Cons n ns)
  then have "n \<in> files w"
    and r: "remove_all ns (w\<lparr>files := files w - {n}, trace := trace w @ [Remove n]\<rparr>) = Inr w'"
    by (auto split: if_splits)
  from Cons.IH[OF r] show ?case by auto
qed

lemma pdf_output_Inr:
  assumes "pdf_output e name w = Inr w'"
  shows "trace w' = trace w @ [Output name]"
  using assms by (auto simp add: pdf_output_def split: if_splits)

lemma end_raster_Inr:
  assumes "end_raster p L st = Inr w'"
  shows "files w' = files (st_world st)"
    and "trace w' = trace (st_world st) \<or> trace w' = trace (st_world st) @ [Raster (raster_lines p L)]"
  using assms
  by (auto simp add: end_raster_def draw_raster_def emit_def split: option.splits if_splits)

lemma prepare_Inr:
  assumes "prepare e self p w = Inr (self', cs, tmps, w1)"
  shows "(tmps = [] \<and> w1 = w) \<or>
         (tmps = [''tmp.mp4''] \<and> files w1 = insert ''tmp.mp4'' (files w) \<and>
          trace w1 = trace w @ [Transcode (fps p)])"
  using assms
  by (auto simp add: prepare_def split: source.splits if_splits option.splits)

text \<open>
  Claim C10: when the frame sequence is empty, \<open>process\<close> does not end normally. Once
  the geometry is computed it fails with \<open>UnboundLocalError\<close> at the end-of-stream check,
  in the world right after \<open>pdf.add_page()\<close>: the document is not written and no temporary
  file (a transcoded \<open>tmp.mp4\<close>) is removed.
\<close>

theorem zero_frames_unbound:
  assumes "prepare e self p w = Inr (self', cs, tmps, w1)" "all_frames self' = []"
  shows "isl (process e self p w) \<and>
         (\<forall>L. plan_layout p cs = Inr L \<longrightarrow>
            process e self p w = Inl (UnboundLocalError, emit [AddPage] w1))"
  using assms
  by (auto simp add: process_def finish_def end_raster_def init_state_def split: sum.splits)

theorem zero_frames_unbound_witness:
  "prepare env_ok (clip_creator 25 0) (process_args cli_args) world0 =
     Inr (clip_creator 10 0, \<lparr>width = 1920, height = 1080\<rparr>, [''tmp.mp4''],
          \<lparr>files = {''tmp.mp4''}, trace = [Transcode 10]\<rparr>) \<and>
   all_frames (clip_creator 10 0) = [] \<and>
   process env_ok (clip_creator 25 0) (process_args cli_args) world0 =
     Inl (UnboundLocalError, \<lparr>files = {''tmp.mp4''}, trace = [Transcode 10, AddPage]\<rparr>)"
proof -
  have pr: "prepare env_ok (clip_creator 25 0) (process_args cli_args) world0 =
     Inr (clip_creator 10 0, \<lparr>width = 1920, height = 1080\<rparr>, [''tmp.mp4''],
          \<lparr>files = {''tmp.mp4''}, trace = [Transcode 10]\<rparr>)"
    by code_simp
  have fr: "all_frames (clip_creator 10 0) = []"
    by code_simp
  have pl: "plan_layout (process_args cli_args) \<lparr>width = 1920, height = 1080\<rparr> = Inr scenario_layout"
    by code_simp
  from zero_frames_unbound[OF pr fr] pl pr fr show ?thesis
    by (simp add: emit_def)
qed

subsection \<open>Temporary files\<close>

lemma created_files_append [simp]: "created_files (a @ b) = created_files a @ created_files b"
  by (simp add: created_files_def)

lemma created_files_Nil [simp]: "created_files [] = []"
  by (simp add: created_files_def)

lemma created_files_Cons [simp]: "created_files (ev # tr) = created_by ev @ created_files tr"
  by (simp add: created_files_def)

lemma created_files_place_events [simp]: "created_files (place_events p L n x y i) = []"
  by (simp add: place_events_def Let_def)

lemma created_files_Remove [simp]: "created_files (map Remove ns) = []"
  by (induction ns) simp_all

lemma frame_body_tmp_inv:
  assumes "frame_body e self p L st f = Inr st'" "tmp_inv st"
  shows "tmp_inv st'"
  using assms(2) frame_body_Inr(5,6)[OF assms(1)]
  by (auto simp add: tmp_inv_def)

text \<open>
  Claim C3, amended: when \<open>process\<close> completes normally, every temporary file created
  during the run (the transcoded video and every per-tile image) is absent afterwards.
\<close>

theorem process_removes_temp_files:
  assumes "process e self p w = Inr w'" "created_files (trace w) = []"
  shows "\<forall>n\<in>set (created_files (trace w')). n \<notin> files w'"
proof -
  from assms(1) obtain self' cs tmps w1 L st w2 w3 where
    pr: "prepare e self p w = Inr (self', cs, tmps, w1)"
    and lp: "frame_loop e self' p L (init_state tmps (emit [AddPage] w1)) (all_frames self') = Inr st"
    and er: "end_raster p L st = Inr w2"
    and po: "pdf_output e (output_file_name p) w2 = Inr w3"
    and ra: "remove_all (st_tmp_files st) w3 = Inr w'"
    by (rule process_Inr)
  have "tmp_inv (init_state tmps (emit [AddPage] w1))"
    using prepare_Inr[OF pr] assms(2) by (auto simp add: tmp_inv_def init_state_def emit_def)
  then have "tmp_inv st"
    by (rule frame_loop_invariant[OF lp, where P = tmp_inv]) (rule frame_body_tmp_inv)
  moreover have "created_files (trace w2) = created_files (trace (st_world st))"
    using end_raster_Inr(2)[OF er] by auto
  moreover have "created_files (trace w') = created_files (trace w2)"
    using remove_all_Inr[OF ra] pdf_output_Inr[OF po] by simp
  moreover have "files w' = files w3 - set (st_tmp_files st)"
    using remove_all_Inr[OF ra] by simp
  ultimately show ?thesis by (auto simp add: tmp_inv_def)
qed

lemma transcoded_run:
  "process env_ok (clip_creator 25 5) (process_args tall_args) world0 = Inr transcoded_world"
  by code_simp

theorem process_removes_temp_files_witness:
  "process env_ok (clip_creator 25 5) (process_args tall_args) world0 = Inr transcoded_world \<and>
   created_files (trace world0) = [] \<and>
   created_files (trace transcoded_world) = [''tmp.mp4'', ''tmp-0-0-0.png'', ''tmp-0-0-1.png''] \<and>
   ''tmp.mp4'' \<notin> files transcoded_world \<and>
   ''tmp-0-0-0.png'' \<notin> files transcoded_world \<and>
   ''tmp-0-0-1.png'' \<notin> files transcoded_world"
proof -
  have c: "created_files (trace world0) = []" by (simp add: world0_def)
  have t: "created_files (trace transcoded_world) = [''tmp.mp4'', ''tmp-0-0-0.png'', ''tmp-0-0-1.png'']"
    by (simp add: transcoded_world_def tall_raster_def)
  from process_removes_temp_files[OF transcoded_run c] transcoded_run c t show ?thesis
    by simp
qed

text \<open>
  Claim C3 as stated fails on a failure path: when \<open>pdf.output\<close> raises, the run ends with
  the tile image still on disk, since the removal loop comes after it and nothing catches
  the exception.
\<close>

theorem failed_output_leaves_temp_files:
  "process env_no_output gif_creator (process_args cli_args) world0 =
     Inl (OSError, \<lparr>files = {''tmp-0-0-0.png''}, trace = gif_run_trace\<rparr>)"
  by code_simp

subsection \<open>Pages and raster grids\<close>

lemma py_int_ge_1: "1 \<le> py_int q \<Longrightarrow> 1 \<le> q"
proof -
  assume a: "1 \<le> py_int q"
  show ?thesis
  proof (cases "0 \<le> q")
    case True
    then have "1 \<le> \<lfloor>q\<rfloor>" using a by (simp add: py_int_def)
    then show ?thesis by linarith
  next
    case False
    then have "\<lceil>q\<rceil> \<le> 0" by (simp add: ceiling_le_iff)
    then show ?thesis using a False by (simp add: py_int_def)
  qed
qed

lemma plan_layout_fields:
  assumes "plan_layout p cs = Inr L"
  shows "nx L = py_int (width (printable_area L) / width (total_mm L))"
    and "ny L = py_int (height (printable_area L) / height (total_mm L))"
    and "x0 L = left_mm (margins p)"
    and "y0 L = top_mm (margins p)"
  using assms
  by (auto simp add: plan_layout_def Let_def split: option.splits if_splits)

lemma cell_positive:
  assumes "1 \<le> py_int (a / b)" "0 < a"
  shows "0 < b"
proof (rule ccontr)
  assume "\<not> 0 < b"
  then have "b \<le> 0" by simp
  then have "a / b \<le> 0" using assms(2) by (simp add: divide_nonneg_nonpos divide_le_0_iff)
  moreover have "1 \<le> a / b" using assms(1) by (rule py_int_ge_1)
  ultimately show False by simp
qed

lemma end_raster_placed:
  assumes "placed L st" "0 < x0 L" "0 < y0 L" "0 \<le> st_ty st"
    and "0 < width (total_mm L)" "0 < height (total_mm L)"
  shows "end_raster p L st = Inr (draw_raster p L (st_world st))"
proof -
  have "0 \<le> (of_int (st_tx st) :: rat) * width (total_mm L)"
    using assms(1,5) by (simp add: placed_def)
  moreover have "0 \<le> (of_int (st_ty st) :: rat) * height (total_mm L)"
    using assms(4,6) by simp
  ultimately have "x0 L + of_int (st_tx st) * width (total_mm L) \<noteq> 0"
    "y0 L + of_int (st_ty st) * height (total_mm L) \<noteq> 0"
    using assms(2,3) by linarith+
  then show ?thesis using assms(1) by (simp add: end_raster_def placed_def)
qed

lemma page_fill_last:
  assumes "1 \<le> r" "r \<le> c" "n = k * c + r"
  shows "page_fill c n = replicate k c @ [r]"
proof -
  have "n - 1 = k * c + (r - 1)" using assms by simp
  moreover have "r - 1 < c" using assms by simp
  ultimately have "(n - 1) div c = k" by simp
  then show ?thesis using assms(3) by (simp add: page_fill_def)
qed

lemma spec_pages_last:
  assumes "1 \<le> r" "r \<le> c" "n = k * c + r"
  shows "spec_pages c n = concat (replicate k (page_block c)) @ page_block r"
  by (simp add: spec_pages_def page_fill_last[OF assms])

lemma marks_Remove [simp]: "marks (map Remove ns) = []"
  by (induction ns) simp_all

lemma init_state_grid_inv:
  "1 \<le> nx L \<Longrightarrow> 1 \<le> ny L \<Longrightarrow> grid_inv L (init_state tmps w)"
  by (simp add: grid_inv_def init_state_def)

text \<open>
  Claim C4, amended: for every run that completes normally on a non-empty frame sequence
  with at least one column and one row, a positive printable area and positive left and top
  margins, the document is a sequence of pages, each opened by \<open>add_page\<close>, filled with its
  tiles and closed by exactly one raster grid after its last tile; every page but the last
  holds \<open>nx * ny\<close> tiles, the last at least one.
\<close>

theorem raster_once_per_page:
  assumes pr: "prepare e self p w = Inr (self', cs, tmps, w1)"
    and pl: "plan_layout p cs = Inr L"
    and run: "process e self p w = Inr w'"
    and fs: "all_frames self' \<noteq> []"
    and n1: "1 \<le> nx L" "1 \<le> ny L"
    and pa: "0 < width (printable_area L)" "0 < height (printable_area L)"
    and mg: "0 < left_mm (margins p)" "0 < top_mm (margins p)"
    and w: "marks (trace w) = []"
  shows "marks (trace w') = spec_pages (nat (nx L * ny L)) (length (all_frames self'))"
proof -
  from run obtain st w2 w3 where
    lp: "frame_loop e self' p L (init_state tmps (emit [AddPage] w1)) (all_frames self') = Inr st"
    and er: "end_raster p L st = Inr w2"
    and po: "pdf_output e (output_file_name p) w2 = Inr w3"
    and ra: "remove_all (st_tmp_files st) w3 = Inr w'"
    using pr pl by (auto elim!: process_Inr)
  let ?init = "init_state tmps (emit [AddPage] w1)"
  let ?c = "nat (nx L * ny L)"
  let ?r = "st_ty st * nx L + st_tx st + 1"
  have "marks (trace w1) = []"
    using prepare_Inr[OF pr] w by auto
  then have pi0: "pages_inv L ?init"
    by (simp add: pages_inv_def init_state_def emit_def)
  have gi0: "grid_inv L ?init" using n1 by (rule init_state_grid_inv)
  have gi: "grid_inv L st" and pi: "pages_inv L st"
    using frame_loop_pages_inv[OF lp gi0 pi0] by simp_all
  have pc: "placed L st" using lp gi0 fs by (rule frame_loop_placed)
  have cnt: "st_i st = int (length (all_frames self'))"
    using frame_loop_count[OF lp] by (simp add: init_state_def)
  have tw: "0 < width (total_mm L)" "0 < height (total_mm L)"
    using n1 pa plan_layout_fields(1,2)[OF pl] by (auto intro: cell_positive)
  have "end_raster p L st = Inr (draw_raster p L (st_world st))"
    using pc mg gi tw by (intro end_raster_placed) (simp_all add: plan_layout_fields[OF pl] grid_inv_def)
  with er have w2: "w2 = draw_raster p L (st_world st)" by simp
  have "trace w' = trace (st_world st) @ [Raster (raster_lines p L), Output (output_file_name p)]
          @ map Remove (st_tmp_files st)"
    using remove_all_Inr[OF ra] pdf_output_Inr[OF po] w2 by (simp add: draw_raster_def emit_def)
  then have m: "marks (trace w') =
      concat (replicate (nat (st_page st)) (page_block ?c)) @ page_block (nat ?r)"
    using pi by (simp add: pages_inv_def page_block_def)
  have r1: "1 \<le> ?r"
  proof -
    have "0 \<le> st_ty st * nx L" using gi by (simp add: grid_inv_def)
    moreover have "0 \<le> st_tx st" using pc by (simp add: placed_def)
    ultimately show ?thesis by linarith
  qed
  have r2: "?r \<le> nx L * ny L" using gi by (rule grid_fill_bounds)
  have pg: "0 \<le> st_page st" using gi by (simp add: grid_inv_def)
  have "int (length (all_frames self')) = st_page st * (nx L * ny L) + ?r"
    using gi cnt by (simp add: grid_inv_def)
  then have "length (all_frames self') = nat (st_page st * (nx L * ny L) + ?r)"
    by linarith
  also have "\<dots> = nat (st_page st) * ?c + nat ?r"
    using pg r1 r2 by (simp add: nat_add_distrib nat_mult_distrib)
  finally have n: "length (all_frames self') = nat (st_page st) * ?c + nat ?r" .
  have "spec_pages ?c (length (all_frames self')) =
      concat (replicate (nat (st_page st)) (page_block ?c)) @ page_block (nat ?r)"
    using r1 r2 by (intro spec_pages_last n) simp_all
  with m show ?thesis by simp
qed

subsection \<open>Row-major placement\<close>

lemma slot_unique:
  fixes k :: int
  assumes "0 \<le> t" "t < n" "0 \<le> u" "u < m" "k = pg * (n * m) + u * n + t"
  shows "k mod n = t" and "(k div n) mod m = u" and "k div (n * m) = pg"
proof -
  have k: "k = t + (u + pg * m) * n" using assms(5) by (simp add: algebra_simps)
  show a: "k mod n = t" using assms(1,2) by (simp add: k)
  have d: "k div n = u + pg * m" using assms(1,2) by (simp add: k)
  show b: "(k div n) mod m = u" using assms(3,4) by (simp add: d)
  have "k div (n * m) = (k div n) div m"
    using assms(3,4) by (intro zdiv_zmult2_eq) simp
  then show "k div (n * m) = pg" using assms(3,4) by (simp add: d)
qed

lemma filter_tile_place_events [simp]:
  "filter is_tile_event (place_events p L n x y i) = place_events p L n x y i"
  by (simp add: place_events_def Let_def)

lemma expected_tiles_snoc:
  "expected_tiles p L (pre @ [im]) = expected_tiles p L pre @ tile_events p L (int (length pre)) im"
  by (simp add: expected_tiles_def enumerate_append_eq)

lemma frame_body_tiles:
  assumes b: "frame_body e self p L st f = Inr st'" and g: "grid_inv L st"
  shows "filter is_tile_event (trace (st_world st')) =
         filter is_tile_event (trace (st_world st))
           @ tile_events p L (st_i st) (projr (frame_image e L f))"
proof -
  note fb = frame_body_Inr[OF b]
  from next_slot_grid[OF g fb(1)] have
    s: "0 \<le> st_tx st'" "st_tx st' < nx L" "0 \<le> st_ty st'" "st_ty st' < ny L"
      "st_i st = st_page st' * (nx L * ny L) + st_ty st' * nx L + st_tx st'"
    by simp_all
  have slot: "st_i st mod nx L = st_tx st'" "(st_i st div nx L) mod ny L = st_ty st'"
    "st_i st div (nx L * ny L) = st_page st'"
    using slot_unique[OF s] by simp_all
  show ?thesis
    by (simp add: fb(6) tile_events_def Let_def slot)
qed

lemma frame_loop_tiles:
  assumes "frame_loop e self p L st fs = Inr st'" "grid_inv L st" "st_i st = int (length pre)"
    and "filter is_tile_event (trace (st_world st)) = tr0 @ expected_tiles p L pre"
  shows "\<exists>ims. map (frame_image e L) fs = map Inr ims \<and>
           filter is_tile_event (trace (st_world st')) = tr0 @ expected_tiles p L (pre @ ims)"
  using assms
proof (induction fs arbitrary: st pre)
  case Nil
  then show ?case by simp
next
  case (Cons f fs)
  from Cons.prems(1) obtain st1 where b: "frame_body e self p L st f = Inr st1"
    and l: "frame_loop e self p L st1 fs = Inr st'"
    by (auto split: sum.splits)
  define im where "im = projr (frame_image e L f)"
  have fi: "frame_image e L f = Inr im"
    unfolding im_def by (rule frame_body_Inr(10)[OF b])
  have g1: "grid_inv L st1" using b Cons.prems(2) by (rule frame_body_grid_inv)
  have i1: "st_i st1 = int (length (pre @ [im]))"
    using frame_body_Inr(2)[OF b] Cons.prems(3) by simp
  have t1: "filter is_tile_event (trace (st_world st1)) = tr0 @ expected_tiles p L (pre @ [im])"
    using frame_body_tiles[OF b Cons.prems(2)] Cons.prems(3,4)
    by (simp add: expected_tiles_snoc im_def)
  from Cons.IH[OF l g1 i1 t1] obtain ims where
    m: "map (frame_image e L) fs = map Inr ims"
    and t: "filter is_tile_event (trace (st_world st')) = tr0 @ expected_tiles p L ((pre @ [im]) @ ims)"
    by blast
  have "map (frame_image e L) (f # fs) = map Inr (im # ims)" using fi m by simp
  moreover have "filter is_tile_event (trace (st_world st')) = tr0 @ expected_tiles p L (pre @ im # ims)"
    using t by simp
  ultimately show ?case by blast
qed

text \<open>
  Claim C5, amended: with at least one column and one row, every frame yields its image,
  and the image of frame \<open>k\<close> (from 0) is saved and placed as the tile of page
  \<open>k div (nx * ny)\<close>, column \<open>k mod nx\<close> and row \<open>(k div nx) mod ny\<close>, labelled \<open>k\<close>; the frame
  counter ends at the number of frames.
\<close>

theorem tiles_row_major:
  assumes "frame_loop e self p L (init_state tmps w) fs = Inr st" "1 \<le> nx L" "1 \<le> ny L"
  shows "\<exists>ims. map (frame_image e L) fs = map Inr ims \<and>
           st_i st = int (length fs) \<and>
           filter is_tile_event (trace (st_world st)) =
             filter is_tile_event (trace w) @ expected_tiles p L ims"
proof -
  have g: "grid_inv L (init_state tmps w)" using assms(2,3) by (rule init_state_grid_inv)
  have "\<exists>ims. map (frame_image e L) fs = map Inr ims \<and>
          filter is_tile_event (trace (st_world st)) =
            filter is_tile_event (trace w) @ expected_tiles p L ([] @ ims)"
    using assms(1) g
    by (rule frame_loop_tiles) (simp_all add: init_state_def expected_tiles_def)
  moreover have "st_i st = int (length fs)"
    using frame_loop_count[OF assms(1)] by (simp add: init_state_def)
  ultimately show ?thesis by simp
qed

subsection \<open>Runs on the example inputs\<close>

lemma tall_plan:
  "plan_layout (process_args tall_args) \<lparr>width = 1920, height = 1080\<rparr> = Inr tall_layout"
  by code_simp

lemma tall_prepare:
  "prepare env_ok (clip_creator 10 3) (process_args tall_args) world0 =
     Inr (clip_creator 10 3, \<lparr>width = 1920, height = 1080\<rparr>, [], world0)"
  by code_simp

lemma tall_run:
  "process env_ok (clip_creator 10 3) (process_args tall_args) world0 = Inr tall_world"
  by code_simp

lemma tall_loop:
  "frame_loop env_ok (clip_creator 10 3) (process_args tall_args) tall_layout
     (init_state [] world0) (all_frames (clip_creator 10 3)) = Inr tall_state"
  by code_simp

theorem raster_once_per_page_witness:
  "prepare env_ok (clip_creator 10 3) (process_args tall_args) world0 =
     Inr (clip_creator 10 3, \<lparr>width = 1920, height = 1080\<rparr>, [], world0) \<and>
   plan_layout (process_args tall_args) \<lparr>width = 1920, height = 1080\<rparr> = Inr tall_layout \<and>
   process env_ok (clip_creator 10 3) (process_args tall_args) world0 = Inr tall_world \<and>
   length (all_frames (clip_creator 10 3)) = 3 \<and> nx tall_layout = 1 \<and> ny tall_layout = 2 \<and>
   marks (trace tall_world) = [NewPage, Tile, Tile, Grid, NewPage, Tile, Grid] \<and>
   spec_pages 2 3 = [NewPage, Tile, Tile, Grid, NewPage, Tile, Grid]"
proof -
  have fs: "all_frames (clip_creator 10 3) \<noteq> []" "length (all_frames (clip_creator 10 3)) = 3"
    by code_simp+
  have c: "1 \<le> nx tall_layout" "1 \<le> ny tall_layout"
    "0 < width (printable_area tall_layout)" "0 < height (printable_area tall_layout)"
    "0 < left_mm (margins (process_args tall_args))" "0 < top_mm (margins (process_args tall_args))"
    "marks (trace world0) = []"
    by (simp_all add: tall_layout_def process_args_def process_defaults_def world0_def)
  have sp: "spec_pages 2 3 = [NewPage, Tile, Tile, Grid, NewPage, Tile, Grid]"
    by code_simp
  from raster_once_per_page[OF tall_prepare tall_plan tall_run fs(1) c]
  have "marks (trace tall_world) = spec_pages 2 3"
    by (simp add: fs(2) tall_layout_def)
  with tall_prepare tall_plan tall_run fs(2) sp show ?thesis
    by (simp add: tall_layout_def)
qed

text \<open>
  Claim C4 as stated fails when no column fits: with one row and no column, the first
  frame already triggers the page break, so the first page gets a raster grid and no tile.
\<close>

theorem raster_on_empty_page:
  "map_sum id (\<lambda>L. (nx L, ny L)) (plan_layout (process_args wide_gif_args) \<lparr>width = 500, height = 500\<rparr>)
     = Inr (0, 1) \<and>
   fst (main env_ok wide_gif_args world0) = Success \<and>
   marks (trace (snd (main env_ok wide_gif_args world0))) = [NewPage, Grid, NewPage, Tile, Grid]"
  by code_simp

theorem tiles_row_major_witness:
  "frame_loop env_ok (clip_creator 10 3) (process_args tall_args) tall_layout
     (init_state [] world0) (all_frames (clip_creator 10 3)) = Inr tall_state \<and>
   1 \<le> nx tall_layout \<and> 1 \<le> ny tall_layout \<and>
   map (frame_image env_ok tall_layout) (all_frames (clip_creator 10 3)) =
     map Inr [Image (1259, 708), Image (1259, 708), Image (1259, 708)] \<and>
   st_i tall_state = 3 \<and>
   filter is_tile_event (trace (st_world tall_state)) = tall_tiles \<and>
   expected_tiles (process_args tall_args) tall_layout
     [Image (1259, 708), Image (1259, 708), Image (1259, 708)] = tall_tiles"
proof -
  have c: "1 \<le> nx tall_layout" "1 \<le> ny tall_layout"
    by (simp_all add: tall_layout_def)
  have m: "map (frame_image env_ok tall_layout) (all_frames (clip_creator 10 3)) =
     map Inr [Image (1259, 708), Image (1259, 708), Image (1259, 708)]"
    by code_simp
  have t: "filter is_tile_event (trace (st_world tall_state)) = tall_tiles"
    by (simp add: tall_state_def tall_tiles_def tall_raster_def)
  from tiles_row_major[OF tall_loop c] obtain ims where
    m': "map (frame_image env_ok tall_layout) (all_frames (clip_creator 10 3)) = map Inr ims"
    and i: "st_i tall_state = int (length (all_frames (clip_creator 10 3)))"
    and e: "filter is_tile_event (trace (st_world tall_state)) =
              filter is_tile_event (trace world0) @ expected_tiles (process_args tall_args) tall_layout ims"
    by blast
  have "(map Inr ims :: (error + image) list) =
          map Inr [Image (1259, 708), Image (1259, 708), Image (1259, 708)]"
    by (rule trans[OF m'[symmetric] m])
  then have "ims = [Image (1259, 708), Image (1259, 708), Image (1259, 708)]"
    by (simp only: inj_map_eq_map[OF inj_Inr])
  with e t tall_loop c m show ?thesis
    by (simp add: world0_def tall_state_def)
qed

text \<open>
  Claim C5 as stated fails when no column fits: the column index is never reset, the three
  frames go to columns 0, 1 and 2 of row 1 although the plan has no column and no row.
\<close>

theorem tiles_outside_grid:
  "map_sum id (\<lambda>L. (nx L, ny L)) (plan_layout (process_args huge_args) \<lparr>width = 1920, height = 1080\<rparr>)
     = Inr (0, 0) \<and>
   fst (main env_ok huge_args world0) = Success \<and>
   created_files (trace (snd (main env_ok huge_args world0)))
     = [''tmp-0-0-1.png'', ''tmp-0-1-1.png'', ''tmp-0-2-1.png'']"
  by code_simp


lemma is_image_place_events [simp]:
  "length (filter is_image (place_events p L n x y i)) = 1"
  by (simp add: place_events_def Let_def)




text \<open>
  The hypothesis on the images is needed: at 0 DPI the planned pixel size is 0 x 0,
  \<open>thumbnail\<close> raises on the first frame, and the run ends before any tile is saved.
\<close>

lemma zero_dpi_run_fails:
  "main env_ok (huge_args\<lparr>arg_dpi := 0\<rparr>) world0 =
     (Traceback ZeroDivisionError, \<lparr>files = {}, trace = [OpenSource ''v.mp4'', AddPage]\<rparr>)"
  by code_simp


text \<open>
  Claim C7 says that every frame is resampled to the planned pixel size before it is saved.
  The branch for GIF frames has no resampling step: for a GIF of 500 x 500 pixels and a
  planned size of 236 x 236, the saved image is 500 x 500.
\<close>

theorem gif_frame_not_resampled:
  "map_sum id frame (plan_layout (process_args gif_args) \<lparr>width = 500, height = 500\<rparr>)
     = Inr \<lparr>width = 236, height = 236\<rparr> \<and>
   fst (main env_ok gif_args world0) = Success \<and>
   saved_images (trace (snd (main env_ok gif_args world0))) = [Image (500, 500)]"
  by code_simp

end
